theory Spec2Isabelle
  imports Complex_Main
begin

section \<open>NumPy double-precision values\<close>

text \<open>
  The arrays of \<^verbatim>\<open>colour/quality/tm3018.py\<close> hold IEEE-754 doubles. A double is modelled
  as a finite real number or one of the three special values. Arithmetic on finite values
  is exact: rounding, overflow, underflow and the sign of zero are not modelled. What is
  modelled is where the special values come from and how they spread: NumPy does not raise
  on a division by zero or on the mean of an empty slice, it warns and yields an infinity
  or a NaN.
\<close>

datatype float64 = Fin real | PInf | NInf | NaN

definition inf_of_sign :: "real \<Rightarrow> float64" where
  "inf_of_sign s = (if 0 < s then PInf else if s < 0 then NInf else NaN)"

instantiation float64 :: "{zero, plus, uminus, minus, times, inverse}"
begin

definition zero_float64 :: float64 where
  "zero_float64 = Fin 0"

fun plus_float64 :: "float64 \<Rightarrow> float64 \<Rightarrow> float64" where
  "plus_float64 (Fin a) (Fin b) = Fin (a + b)"
| "plus_float64 NaN y = NaN"
| "plus_float64 x NaN = NaN"
| "plus_float64 PInf NInf = NaN"
| "plus_float64 NInf PInf = NaN"
| "plus_float64 PInf y = PInf"
| "plus_float64 x PInf = PInf"
| "plus_float64 NInf y = NInf"
| "plus_float64 x NInf = NInf"

fun uminus_float64 :: "float64 \<Rightarrow> float64" where
  "uminus_float64 (Fin a) = Fin (- a)"
| "uminus_float64 PInf = NInf"
| "uminus_float64 NInf = PInf"
| "uminus_float64 NaN = NaN"

definition minus_float64 :: "float64 \<Rightarrow> float64 \<Rightarrow> float64" where
  "minus_float64 x y = x + (- y)"

fun times_float64 :: "float64 \<Rightarrow> float64 \<Rightarrow> float64" where
  "times_float64 (Fin a) (Fin b) = Fin (a * b)"
| "times_float64 NaN y = NaN"
| "times_float64 x NaN = NaN"
| "times_float64 PInf (Fin b) = inf_of_sign b"
| "times_float64 NInf (Fin b) = inf_of_sign (- b)"
| "times_float64 (Fin a) PInf = inf_of_sign a"
| "times_float64 (Fin a) NInf = inf_of_sign (- a)"
| "times_float64 PInf PInf = PInf"
| "times_float64 NInf NInf = PInf"
| "times_float64 PInf NInf = NInf"
| "times_float64 NInf PInf = NInf"

fun divide_float64 :: "float64 \<Rightarrow> float64 \<Rightarrow> float64" where
  "divide_float64 (Fin a) (Fin b) = (if b = 0 then inf_of_sign a else Fin (a / b))"
| "divide_float64 NaN y = NaN"
| "divide_float64 x NaN = NaN"
| "divide_float64 (Fin a) PInf = Fin 0"
| "divide_float64 (Fin a) NInf = Fin 0"
| "divide_float64 PInf (Fin b) = (if b < 0 then NInf else PInf)"
| "divide_float64 NInf (Fin b) = (if b < 0 then PInf else NInf)"
| "divide_float64 PInf PInf = NaN"
| "divide_float64 PInf NInf = NaN"
| "divide_float64 NInf PInf = NaN"
| "divide_float64 NInf NInf = NaN"

definition inverse_float64 :: "float64 \<Rightarrow> float64" where
  "inverse_float64 x = Fin 1 div x"

instance ..

end

text \<open>
  Without rounding, the addition of doubles is associative and commutative also on the
  special values, so the sum of an array does not depend on the order of summation.
\<close>

lemma float64_add_assoc: "(x + y) + z = x + (y + (z::float64))"
  by (cases x; cases y; cases z) simp_all

lemma float64_add_commute: "x + y = y + (x::float64)"
  by (cases x; cases y) simp_all

lemma float64_zero_add: "0 + x = (x::float64)"
  unfolding zero_float64_def by (cases x) simp_all

instance float64 :: comm_monoid_add
  by standard (rule float64_add_assoc float64_add_commute float64_zero_add)+

text \<open>\<^verbatim>\<open>np.floor\<close>, \<^verbatim>\<open>np.sqrt\<close>, \<^verbatim>\<open>np.cos\<close> and \<^verbatim>\<open>np.sin\<close> on one value.\<close>

fun np_floor :: "float64 \<Rightarrow> float64" where
  "np_floor (Fin a) = Fin (of_int \<lfloor>a\<rfloor>)"
| "np_floor x = x"

fun np_sqrt :: "float64 \<Rightarrow> float64" where
  "np_sqrt (Fin a) = (if a < 0 then NaN else Fin (sqrt a))"
| "np_sqrt PInf = PInf"
| "np_sqrt x = NaN"

fun np_cos :: "float64 \<Rightarrow> float64" where
  "np_cos (Fin a) = Fin (cos a)"
| "np_cos x = NaN"

fun np_sin :: "float64 \<Rightarrow> float64" where
  "np_sin (Fin a) = Fin (sin a)"
| "np_sin x = NaN"

text \<open>The comparison \<^verbatim>\<open>==\<close> of two doubles: a NaN is equal to nothing, itself included.\<close>

fun float_eq :: "float64 \<Rightarrow> float64 \<Rightarrow> bool" where
  "float_eq NaN y = False"
| "float_eq x NaN = False"
| "float_eq x y = (x = y)"


text \<open>The comparisons \<^verbatim>\<open><\<close> and \<^verbatim>\<open><=\<close> of two doubles; a NaN compares false with everything.\<close>

fun float_less :: "float64 \<Rightarrow> float64 \<Rightarrow> bool" where
  "float_less (Fin a) (Fin b) = (a < b)"
| "float_less NaN y = False"
| "float_less x NaN = False"
| "float_less x NInf = False"
| "float_less PInf y = False"
| "float_less NInf y = True"
| "float_less x PInf = True"

definition float_le :: "float64 \<Rightarrow> float64 \<Rightarrow> bool" where
  "float_le x y = (float_less x y \<or> float_eq x y)"

section \<open>Array operations of NumPy used by the module\<close>

datatype error = AttributeError | IndexError

text \<open>\<^verbatim>\<open>np.empty\<close>: an array whose cells hold whatever was in memory; here a fixed filler.\<close>

definition np_empty :: "nat \<Rightarrow> 'a \<Rightarrow> 'a list" where
  "np_empty n filler = replicate n filler"

text \<open>\<^verbatim>\<open>np.where(xs == b)[0]\<close>: the positions, in increasing order, whose value equals \<open>b\<close>.\<close>

definition np_where_eq :: "float64 list \<Rightarrow> float64 \<Rightarrow> nat list" where
  "np_where_eq xs b = filter (\<lambda>k. float_eq (xs ! k) b) [0..<length xs]"

text \<open>\<^verbatim>\<open>a[b]\<close> for an index array \<open>b\<close>: raises \<^verbatim>\<open>IndexError\<close> when an index is out of bounds.\<close>

definition take_idx :: "'a list \<Rightarrow> nat list \<Rightarrow> error + 'a list" where
  "take_idx a b = (if list_all (\<lambda>k. k < length a) b then Inr (map (nth a) b) else Inl IndexError)"

text \<open>\<^verbatim>\<open>np.mean\<close> of a flat array, and along axis 0 of an array of two-component rows.\<close>

definition np_mean :: "float64 list \<Rightarrow> float64" where
  "np_mean xs = sum_list xs / Fin (real (length xs))"

definition np_mean_axis0 :: "(float64 \<times> float64) list \<Rightarrow> float64 \<times> float64" where
  "np_mean_axis0 rows = (np_mean (map fst rows), np_mean (map snd rows))"

text \<open>\<^verbatim>\<open>np.linalg.norm(rows, axis=1)\<close> for two-component rows.\<close>

definition np_linalg_norm_axis1 :: "(float64 \<times> float64) list \<Rightarrow> float64 list" where
  "np_linalg_norm_axis1 rows = map (\<lambda>(a, b). np_sqrt (a * a + b * b)) rows"

section \<open>The polygon area\<close>

text \<open>
  \<^verbatim>\<open>averages_area\<close>: the loop over \<^verbatim>\<open>range(N)\<close> writes cell \<open>i\<close> of
  \<^verbatim>\<open>triangle_areas\<close>, and \<^verbatim>\<open>np.sum\<close> adds the cells up.
\<close>

definition triangle_area :: "(float64 \<times> float64) list \<Rightarrow> nat \<Rightarrow> float64" where
  "triangle_area averages i =
     (let N = length averages;
          u = averages ! i;
          v = averages ! ((i + 1) mod N)
      in (fst u * snd v - snd u * fst v) / Fin 2)"

definition averages_area :: "(float64 \<times> float64) list \<Rightarrow> float64" where
  "averages_area averages =
     (let N = length averages;
          triangle_areas =
            fold (\<lambda>i ta. ta[i := triangle_area averages i]) [0..<N] (np_empty N NaN)
      in sum_list triangle_areas)"


section \<open>The loops over the bins\<close>

text \<open>
  The loop \<^verbatim>\<open>for idx, b in enumerate(bins)\<close> that fills the two arrays of averages. An
  index of \<open>b\<close> beyond the end of an array raises.
\<close>

fun averages_loop ::
  "(nat \<times> nat list) list \<Rightarrow> (float64 \<times> float64) list \<Rightarrow> (float64 \<times> float64) list \<Rightarrow>
   (float64 \<times> float64) list \<times> (float64 \<times> float64) list \<Rightarrow>
   error + (float64 \<times> float64) list \<times> (float64 \<times> float64) list" where
  "averages_loop [] test_apbp ref_apbp (averages_test, averages_reference) =
     Inr (averages_test, averages_reference)"
| "averages_loop ((idx, b) # rest) test_apbp ref_apbp (averages_test, averages_reference) =
     (case take_idx test_apbp b of
        Inl e \<Rightarrow> Inl e
      | Inr test_rows \<Rightarrow>
          (case take_idx ref_apbp b of
             Inl e \<Rightarrow> Inl e
           | Inr ref_rows \<Rightarrow>
               averages_loop rest test_apbp ref_apbp
                 (averages_test[idx := np_mean_axis0 test_rows],
                  averages_reference[idx := np_mean_axis0 ref_rows])))"

text \<open>
  The list comprehension \<^verbatim>\<open>[np.mean([delta_E_s[bins[i]]]) for i in range(16)]\<close>,
  which stops at the first element that raises.
\<close>

fun bin_means :: "float64 list \<Rightarrow> nat list list \<Rightarrow> nat list \<Rightarrow> error + float64 list" where
  "bin_means delta_E_s bins [] = Inr []"
| "bin_means delta_E_s bins (i # is) =
     (case take_idx delta_E_s (bins ! i) of
        Inl e \<Rightarrow> Inl e
      | Inr ds \<Rightarrow>
          (case bin_means delta_E_s bins is of
             Inl e \<Rightarrow> Inl e
           | Inr ms \<Rightarrow> Inr (np_mean ds # ms)))"

section \<open>The data model\<close>

text \<open>
  Modelled from the spec: the classes \<^verbatim>\<open>DataColorimetry_TCS_CIE2017\<close> and
  \<^verbatim>\<open>ColourRendering_Specification_CIE2017\<close> of \<^verbatim>\<open>colour.quality.cfi2017\<close> are not part
  of the sources at hand. A colorimetry sample carries the triple \<^verbatim>\<open>JMh\<close>, whose third
  component is the hue angle in degrees, and the triple \<^verbatim>\<open>Jpapbp\<close>, whose last two
  components are the chromaticity coordinates; the other fields of a sample are not read
  by this module. The upstream specification has the fields the module reads or passes on.
  The spectral distributions are opaque: the type variable \<open>'sd\<close>.
\<close>

record DataColorimetry_TCS_CIE2017 =
  JMh :: "float64 \<times> float64 \<times> float64"
  Jpapbp :: "float64 \<times> float64 \<times> float64"

record 'sd ColourRendering_Specification_CIE2017 =
  name :: string
  sd_reference :: 'sd
  R_f :: float64
  R_s :: "float64 list"
  CCT :: float64
  D_uv :: float64
  colorimetry_data :: "DataColorimetry_TCS_CIE2017 list \<times> DataColorimetry_TCS_CIE2017 list"
  delta_E_s :: "float64 list"

text \<open>The dataclass \<^verbatim>\<open>ColourQuality_Specification_ANSIIESTM3018\<close>, field by field.\<close>

record 'sd ColourQuality_Specification_ANSIIESTM3018 =
  name :: string
  sd_test :: 'sd
  sd_reference :: 'sd
  R_f :: float64
  R_s :: "float64 list"
  CCT :: float64
  D_uv :: float64
  colorimetry_data :: "DataColorimetry_TCS_CIE2017 list \<times> DataColorimetry_TCS_CIE2017 list"
  R_g :: float64
  bins :: "nat list list"
  averages_test :: "(float64 \<times> float64) list"
  averages_reference :: "(float64 \<times> float64) list"
  average_norms :: "float64 list"
  R_fs :: "float64 list"
  R_cs :: "float64 list"
  R_hs :: "float64 list"

text \<open>
  What \<^verbatim>\<open>colour_fidelity_index_CIE2017\<close> returns (a float or its specification), and what
  \<^verbatim>\<open>colour_fidelity_index_ANSIIESTM3018\<close> returns (either of these, or its own
  specification).
\<close>

datatype 'sd CIE2017_value =
  CIE2017_float float64
| CIE2017_specification "'sd ColourRendering_Specification_CIE2017"

datatype 'sd TM3018_value =
  Float float64
| Specification_CIE2017 "'sd ColourRendering_Specification_CIE2017"
| Specification_ANSIIESTM3018 "'sd ColourQuality_Specification_ANSIIESTM3018"

fun as_TM3018_value :: "'sd CIE2017_value \<Rightarrow> 'sd TM3018_value" where
  "as_TM3018_value (CIE2017_float x) = Float x"
| "as_TM3018_value (CIE2017_specification s) = Specification_CIE2017 s"

section \<open>The colour fidelity index\<close>

text \<open>The hue angle \<^verbatim>\<open>sample.JMh[2]\<close> and the coordinates \<^verbatim>\<open>j.Jpapbp[1:]\<close> of a sample.\<close>

definition hue_angle :: "DataColorimetry_TCS_CIE2017 \<Rightarrow> float64" where
  "hue_angle sample = snd (snd (JMh sample))"

definition apbp :: "DataColorimetry_TCS_CIE2017 \<Rightarrow> float64 \<times> float64" where
  "apbp j = snd (Jpapbp j)"

text \<open>
  The two statements that set up the bins: the floor of every reference hue angle divided
  by 22.5, then for each \<open>b\<close> of \<^verbatim>\<open>range(16)\<close> the positions holding \<open>b\<close>.
\<close>

definition hue_bins :: "DataColorimetry_TCS_CIE2017 list \<Rightarrow> nat list list" where
  "hue_bins reference_data =
     (let bins = map (\<lambda>sample. np_floor (hue_angle sample / Fin 22.5)) reference_data
      in map (\<lambda>b. np_where_eq bins (Fin (real b))) [0..<16])"

text \<open>
  \<^verbatim>\<open>colour_fidelity_index_ANSIIESTM3018\<close>. The two functions it imports from
  \<^verbatim>\<open>colour.quality\<close> are not part of the sources at hand and are parameters:
  \<open>colour_fidelity_index_CIE2017\<close>, the upstream computation, and \<open>delta_E_to_R_f\<close>.
  Modelled from the spec: \<open>delta_E_to_R_f\<close> maps the mean colour difference of one bin to
  the local fidelity of that bin, so its call on the array of the sixteen means is the
  element-wise map. \<^verbatim>\<open>cast\<close> checks nothing at run time: reading an attribute of a float
  raises.
\<close>

definition colour_fidelity_index_ANSIIESTM3018 ::
  "('sd \<Rightarrow> bool \<Rightarrow> 'sd CIE2017_value) \<Rightarrow> (float64 \<Rightarrow> float64) \<Rightarrow> 'sd \<Rightarrow> bool \<Rightarrow>
   error + 'sd TM3018_value" where
  "colour_fidelity_index_ANSIIESTM3018 colour_fidelity_index_CIE2017 delta_E_to_R_f =
    (\<lambda>sd_test additional_data.
      if \<not> additional_data
      then Inr (as_TM3018_value (colour_fidelity_index_CIE2017 sd_test False))
      else
       (case colour_fidelity_index_CIE2017 sd_test True of
          CIE2017_float x \<Rightarrow> Inl AttributeError
        | CIE2017_specification specification \<Rightarrow>
           (let data = ColourRendering_Specification_CIE2017.colorimetry_data specification;
                bins = hue_bins (snd data);
                test_apbp = map apbp (fst data);
                ref_apbp = map apbp (snd data)
            in case averages_loop (enumerate 0 bins) test_apbp ref_apbp
                      (np_empty 16 (NaN, NaN), np_empty 16 (NaN, NaN)) of
                 Inl e \<Rightarrow> Inl e
               | Inr averages \<Rightarrow>
                  (let averages_test = fst averages;
                       averages_reference = snd averages;
                       R_g = Fin 100 *
                         (averages_area averages_test / averages_area averages_reference)
                   in case bin_means
                             (ColourRendering_Specification_CIE2017.delta_E_s specification)
                             bins [0..<16] of
                        Inl e \<Rightarrow> Inl e
                      | Inr bin_delta_E_s \<Rightarrow>
                         (let R_fs = map delta_E_to_R_f bin_delta_E_s;
                              angles = map (\<lambda>k. (Fin 22.5 * Fin (real k) + Fin 11.25)
                                                   / Fin 180 * Fin pi) [0..<16];
                              cosines = map np_cos angles;
                              sines = map np_sin angles;
                              average_norms = np_linalg_norm_axis1 averages_reference;
                              a_deltas = map2 (-) (map fst averages_test)
                                                  (map fst averages_reference);
                              b_deltas = map2 (-) (map snd averages_test)
                                                  (map snd averages_reference);
                              R_cs = map2 (/)
                                       (map ((*) (Fin 100))
                                          (map2 (+) (map2 (*) a_deltas cosines)
                                                    (map2 (*) b_deltas sines)))
                                       average_norms;
                              R_hs = map2 (/)
                                       (map2 (+) (map2 (*) (map uminus a_deltas) sines)
                                                 (map2 (*) b_deltas cosines))
                                       average_norms
                          in Inr (Specification_ANSIIESTM3018
                               \<lparr> name = ColourRendering_Specification_CIE2017.name specification,
                                 sd_test = sd_test,
                                 sd_reference =
                                   ColourRendering_Specification_CIE2017.sd_reference specification,
                                 R_f = ColourRendering_Specification_CIE2017.R_f specification,
                                 R_s = ColourRendering_Specification_CIE2017.R_s specification,
                                 CCT = ColourRendering_Specification_CIE2017.CCT specification,
                                 D_uv = ColourRendering_Specification_CIE2017.D_uv specification,
                                 colorimetry_data = data,
                                 R_g = R_g,
                                 bins = bins,
                                 averages_test = averages_test,
                                 averages_reference = averages_reference,
                                 average_norms = average_norms,
                                 R_fs = R_fs,
                                 R_cs = R_cs,
                                 R_hs = R_hs \<rparr>))))))"


section \<open>Concrete inputs\<close>

text \<open>A polygon of sixteen points wound counter-clockwise, one point in each hue sector.\<close>

definition polygon16 :: "(float64 \<times> float64) list" where
  "polygon16 =
     [(Fin 4, Fin 1), (Fin 3, Fin 2), (Fin 2, Fin 3), (Fin 1, Fin 4),
      (Fin (- 1), Fin 4), (Fin (- 2), Fin 3), (Fin (- 3), Fin 2), (Fin (- 4), Fin 1),
      (Fin (- 4), Fin (- 1)), (Fin (- 3), Fin (- 2)), (Fin (- 2), Fin (- 3)), (Fin (- 1), Fin (- 4)),
      (Fin 1, Fin (- 4)), (Fin 2, Fin (- 3)), (Fin 3, Fin (- 2)), (Fin 4, Fin (- 1))]"

text \<open>
  A colorimetry sample with hue angle \<open>h\<close> and chromaticity coordinates \<open>(a, b)\<close>, an
  upstream specification over given samples and colour differences, and an upstream
  computation that returns it. \<open>example_delta_E_to_R_f\<close> stands in for the parameter
  \<open>delta_E_to_R_f\<close> in the concrete inputs.
\<close>

definition mk_sample :: "real \<Rightarrow> real \<Rightarrow> real \<Rightarrow> DataColorimetry_TCS_CIE2017" where
  "mk_sample h a b = \<lparr> JMh = (Fin 50, Fin 30, Fin h), Jpapbp = (Fin 50, Fin a, Fin b) \<rparr>"

definition mk_specification ::
  "DataColorimetry_TCS_CIE2017 list \<Rightarrow> DataColorimetry_TCS_CIE2017 list \<Rightarrow> float64 list \<Rightarrow>
   unit ColourRendering_Specification_CIE2017" where
  "mk_specification test_data reference_data dE =
     \<lparr> ColourRendering_Specification_CIE2017.name = ''example'',
       sd_reference = (),
       R_f = Fin 90,
       R_s = map (\<lambda>d. Fin 90) dE,
       CCT = Fin 6500,
       D_uv = Fin 0,
       colorimetry_data = (test_data, reference_data),
       delta_E_s = dE \<rparr>"

definition upstream ::
  "unit ColourRendering_Specification_CIE2017 \<Rightarrow> unit \<Rightarrow> bool \<Rightarrow> unit CIE2017_value" where
  "upstream s sd additional_data =
     (if additional_data then CIE2017_specification s
      else CIE2017_float (ColourRendering_Specification_CIE2017.R_f s))"

definition example_delta_E_to_R_f :: "float64 \<Rightarrow> float64" where
  "example_delta_E_to_R_f d = Fin 100 - Fin 6.73 * d"

text \<open>Sixteen samples, one in each hue bin, at the points of \<open>polygon16\<close>.\<close>

definition samples16 :: "DataColorimetry_TCS_CIE2017 list" where
  "samples16 =
     [mk_sample 14 4 1, mk_sample 34 3 2, mk_sample 56 2 3, mk_sample 76 1 4,
      mk_sample 104 (- 1) 4, mk_sample 124 (- 2) 3, mk_sample 146 (- 3) 2, mk_sample 166 (- 4) 1,
      mk_sample 194 (- 4) (- 1), mk_sample 214 (- 3) (- 2), mk_sample 236 (- 2) (- 3),
      mk_sample 256 (- 1) (- 4), mk_sample 284 1 (- 4), mk_sample 304 2 (- 3),
      mk_sample 326 3 (- 2), mk_sample 346 4 (- 1)]"

text \<open>Four samples, two of them with a hue angle outside \<open>[0, 360)\<close>.\<close>

definition samples_stray :: "DataColorimetry_TCS_CIE2017 list" where
  "samples_stray =
     [mk_sample 10 4 1, mk_sample 370 4 1, mk_sample (- 5) 4 (- 1), mk_sample 30 3 2]"

definition specification_stray :: "unit ColourRendering_Specification_CIE2017" where
  "specification_stray =
     mk_specification samples_stray samples_stray [Fin 0, Fin 0, Fin 0, Fin 0]"

text \<open>The sixteen samples under a test source that renders them as the reference does.\<close>

definition specification16 :: "unit ColourRendering_Specification_CIE2017" where
  "specification16 = mk_specification samples16 samples16 (replicate 16 (Fin 0))"

text \<open>
  The sixteen samples again, with every reference sample rendered at the origin of the
  chromaticity plane: all reference averages have norm zero and their polygon has area zero.
\<close>

definition samples16_origin :: "DataColorimetry_TCS_CIE2017 list" where
  "samples16_origin = map (\<lambda>sample. sample\<lparr>Jpapbp := (Fin 50, Fin 0, Fin 0)\<rparr>) samples16"

definition specification_origin :: "unit ColourRendering_Specification_CIE2017" where
  "specification_origin = mk_specification samples16 samples16_origin (replicate 16 (Fin 1))"

section \<open>Auxiliary definitions\<close>


text \<open>The angle bisecting hue bin \<open>i\<close>, in radians: \<open>22.5 * i + 11.25\<close> degrees.\<close>

definition bin_angle :: "nat \<Rightarrow> real" where
  "bin_angle i = (22.5 * real i + 11.25) / 180 * pi"

text \<open>
  The upstream computation evaluates the same colour samples under the test and under
  the reference illuminant: both tuples of colorimetry data and the array of colour
  differences have one entry per sample.
\<close>

definition well_formed :: "'sd ColourRendering_Specification_CIE2017 \<Rightarrow> bool" where
  "well_formed s =
     (length (fst (ColourRendering_Specification_CIE2017.colorimetry_data s)) =
        length (snd (ColourRendering_Specification_CIE2017.colorimetry_data s)) \<and>
      length (ColourRendering_Specification_CIE2017.delta_E_s s) =
        length (snd (ColourRendering_Specification_CIE2017.colorimetry_data s)))"

text \<open>A double that is a number: neither an infinity nor a NaN.\<close>

fun is_finite :: "float64 \<Rightarrow> bool" where
  "is_finite (Fin a) = True"
| "is_finite x = False"

text \<open>
  The radial and the tangential component of the difference between the test and the
  reference average of bin \<open>i\<close>, as the function computes them before dividing by the
  norm, and the length of that difference.
\<close>

definition radial_component :: "'sd ColourQuality_Specification_ANSIIESTM3018 \<Rightarrow> nat \<Rightarrow> float64" where
  "radial_component q i =
     (fst (averages_test q ! i) - fst (averages_reference q ! i)) * Fin (cos (bin_angle i))
     + (snd (averages_test q ! i) - snd (averages_reference q ! i)) * Fin (sin (bin_angle i))"

definition tangential_component :: "'sd ColourQuality_Specification_ANSIIESTM3018 \<Rightarrow> nat \<Rightarrow> float64" where
  "tangential_component q i =
     - (fst (averages_test q ! i) - fst (averages_reference q ! i)) * Fin (sin (bin_angle i))
     + (snd (averages_test q ! i) - snd (averages_reference q ! i)) * Fin (cos (bin_angle i))"

definition delta_norm :: "'sd ColourQuality_Specification_ANSIIESTM3018 \<Rightarrow> nat \<Rightarrow> float64" where
  "delta_norm q i =
     np_sqrt ((fst (averages_test q ! i) - fst (averages_reference q ! i))
                * (fst (averages_test q ! i) - fst (averages_reference q ! i))
              + (snd (averages_test q ! i) - snd (averages_reference q ! i))
                * (snd (averages_test q ! i) - snd (averages_reference q ! i)))"

text \<open>
  One sample in bin 0, on the bisector of the bin at distance 2 from the origin under the
  reference illuminant. Under the first test source it moves along the bisector to
  distance 1; under the second it moves by 1 at a right angle to the bisector.
\<close>

definition specification_desaturated :: "unit ColourRendering_Specification_CIE2017" where
  "specification_desaturated =
     mk_specification
       [mk_sample 11.25 (cos (bin_angle 0)) (sin (bin_angle 0))]
       [mk_sample 11.25 (2 * cos (bin_angle 0)) (2 * sin (bin_angle 0))]
       [Fin 3]"

definition specification_hue_shifted :: "unit ColourRendering_Specification_CIE2017" where
  "specification_hue_shifted =
     mk_specification
       [mk_sample 38 (2 * cos (bin_angle 0) - sin (bin_angle 0))
                     (2 * sin (bin_angle 0) + cos (bin_angle 0))]
       [mk_sample 11.25 (2 * cos (bin_angle 0)) (2 * sin (bin_angle 0))]
       [Fin 3]"

section \<open>Arithmetic of doubles\<close>

lemma Fin_minus [simp]: "Fin a - Fin b = Fin (a - b)"
  by (simp add: minus_float64_def)






section \<open>The polygon area is the shoelace sum\<close>

text \<open>The loop writes every cell of the array it was given, so the filler is never read.\<close>

lemma fold_list_update:
  "length init = n \<Longrightarrow> m \<le> n \<Longrightarrow>
   fold (\<lambda>i ta. ta[i := f i]) [0..<m] init = map f [0..<m] @ drop m init"
proof (induction m)
  case 0
  then show ?case by simp
next
  case (Suc m)
  then have "m < length init" by simp
  then have d: "drop m init = init ! m # drop (Suc m) init"
    by (simp add: Cons_nth_drop_Suc)
  from Suc show ?case
    by (simp add: list_update_append d)
qed

lemma averages_area_sum_list:
  "averages_area ps = sum_list (map (triangle_area ps) [0..<length ps])"
  by (simp add: averages_area_def np_empty_def fold_list_update[where n="length ps"])

lemma averages_area_sum: "averages_area ps = (\<Sum>i<length ps. triangle_area ps i)"
  by (simp add: averages_area_sum_list interv_sum_list_conv_sum_set_nat lessThan_atLeast0)

lemma averages_area_polygon16: "averages_area polygon16 = Fin 46"
  by (simp add: averages_area_sum_list polygon16_def triangle_area_def upt_rec[of _ "numeral _"]
      upt_rec[of _ "Suc _"])

text \<open>
  C1. For a sequence of sixteen points, \<open>averages_area\<close> is the shoelace sum: the sum over
  \<open>i\<close> from 0 to 15 of \<open>(u.x * v.y - u.y * v.x) / 2\<close>, where \<open>u\<close> is point \<open>i\<close> and \<open>v\<close> is
  point \<open>(i + 1) mod 16\<close>.
\<close>

theorem averages_area_shoelace:
  "length averages = 16 \<Longrightarrow>
   averages_area averages =
     (\<Sum>i<16. (fst (averages ! i) * snd (averages ! ((i + 1) mod 16))
               - snd (averages ! i) * fst (averages ! ((i + 1) mod 16))) / Fin 2)"
  by (simp add: averages_area_sum triangle_area_def Let_def)

theorem averages_area_shoelace_witness:
  "length polygon16 = 16 \<and>
   (\<Sum>i<16. (fst (polygon16 ! i) * snd (polygon16 ! ((i + 1) mod 16))
             - snd (polygon16 ! i) * fst (polygon16 ! ((i + 1) mod 16))) / Fin 2) = Fin 46"
proof -
  have len: "length polygon16 = 16" by (simp add: polygon16_def)
  show ?thesis
    using averages_area_shoelace [OF len] len by (simp add: averages_area_polygon16)
qed

section \<open>Reversing the winding\<close>








section \<open>The hue bins\<close>

lemma float_eq_Fin [simp]: "float_eq x (Fin r) = (x = Fin r)"
  by (cases x) simp_all

lemma set_np_where_eq: "set (np_where_eq xs b) = {k. k < length xs \<and> float_eq (xs ! k) b}"
  by (auto simp: np_where_eq_def)

lemma distinct_np_where_eq: "distinct (np_where_eq xs b)"
  by (simp add: np_where_eq_def)

lemma length_hue_bins: "length (hue_bins ds) = 16"
  by (simp add: hue_bins_def)

lemma hue_bins_nth:
  "b < 16 \<Longrightarrow>
   hue_bins ds ! b =
     np_where_eq (map (\<lambda>sample. np_floor (hue_angle sample / Fin 22.5)) ds) (Fin (real b))"
  unfolding hue_bins_def Let_def by (subst nth_map) simp_all

lemma in_hue_bins_iff:
  "b < 16 \<Longrightarrow>
   k \<in> set (hue_bins ds ! b) \<longleftrightarrow>
     k < length ds \<and> np_floor (hue_angle (ds ! k) / Fin 22.5) = Fin (real b)"
  by (auto simp: hue_bins_nth set_np_where_eq)

lemma distinct_hue_bins: "b < 16 \<Longrightarrow> distinct (hue_bins ds ! b)"
  by (simp add: hue_bins_nth distinct_np_where_eq)

lemma hue_in_range_floor:
  assumes "float_le (Fin 0) x" "float_less x (Fin 360)"
  shows "\<exists>b<16. np_floor (x / Fin 22.5) = Fin (real b)"
proof -
  from assms obtain h where x: "x = Fin h" and h: "0 \<le> h" "h < 360"
    by (cases x) (auto simp: float_le_def)
  define f where "f = \<lfloor>h / 22.5\<rfloor>"
  have "0 \<le> f" using h by (simp add: f_def)
  moreover have "f < 16" using h by (simp add: f_def floor_less_iff)
  ultimately have "nat f < 16" "real (nat f) = of_int f" by simp_all
  then show ?thesis using x by (intro exI[of _ "nat f"]) (simp add: f_def)
qed


section \<open>The loops over the bins, in closed form\<close>

lemma take_idx_eq:
  "take_idx a b = (if \<forall>k\<in>set b. k < length a then Inr (map (nth a) b) else Inl IndexError)"
  by (simp add: take_idx_def list_all_iff)

lemma averages_loop_enumerate:
  "k + length bs \<le> length avt \<Longrightarrow> length avr = length avt \<Longrightarrow>
   averages_loop (enumerate k bs) t r (avt, avr) =
     (if \<forall>b\<in>set bs. \<forall>j\<in>set b. j < length t \<and> j < length r
      then Inr (take k avt @ map (\<lambda>b. np_mean_axis0 (map (nth t) b)) bs
                  @ drop (k + length bs) avt,
                take k avr @ map (\<lambda>b. np_mean_axis0 (map (nth r) b)) bs
                  @ drop (k + length bs) avr)
      else Inl IndexError)"
proof (induction bs arbitrary: k avt avr)
  case Nil
  then show ?case by simp
next
  case (Cons b bs)
  then have k: "k < length avt" "k < length avr" by simp_all
  have step: "averages_loop (enumerate (Suc k) bs) t r (avt[k := v], avr[k := w]) =
     (if \<forall>b\<in>set bs. \<forall>j\<in>set b. j < length t \<and> j < length r
      then Inr (take k avt @ v # map (\<lambda>b. np_mean_axis0 (map (nth t) b)) bs
                  @ drop (Suc k + length bs) avt,
                take k avr @ w # map (\<lambda>b. np_mean_axis0 (map (nth r) b)) bs
                  @ drop (Suc k + length bs) avr)
      else Inl IndexError)" for v w
    using Cons.prems k
    by (subst Cons.IH) (simp_all add: take_Suc_conv_app_nth)
  show ?case
    by (auto simp: take_idx_eq step)
qed

lemma averages_loop_16:
  "length bs = 16 \<Longrightarrow>
   averages_loop (enumerate 0 bs) t r (np_empty 16 x, np_empty 16 y) =
     (if \<forall>b\<in>set bs. \<forall>j\<in>set b. j < length t \<and> j < length r
      then Inr (map (\<lambda>b. np_mean_axis0 (map (nth t) b)) bs,
                map (\<lambda>b. np_mean_axis0 (map (nth r) b)) bs)
      else Inl IndexError)"
  by (subst averages_loop_enumerate) (simp_all add: np_empty_def)

lemma bin_means_eq:
  "bin_means d bs is =
     (if \<forall>i\<in>set is. \<forall>j\<in>set (bs ! i). j < length d
      then Inr (map (\<lambda>i. np_mean (map (nth d) (bs ! i))) is)
      else Inl IndexError)"
  by (induction "is") (auto simp: take_idx_eq)

section \<open>The result in closed form\<close>

lemma hue_bins_index_bound: "b \<in> set (hue_bins ds) \<Longrightarrow> j \<in> set b \<Longrightarrow> j < length ds"
  by (auto simp: hue_bins_def set_np_where_eq)


lemma main_set:
  assumes "cfi sd True = CIE2017_specification s"
  shows "colour_fidelity_index_ANSIIESTM3018 cfi d2r sd True =
    (let data = ColourRendering_Specification_CIE2017.colorimetry_data s;
         bs = hue_bins (snd data);
         delta = ColourRendering_Specification_CIE2017.delta_E_s s
     in if (\<forall>b\<in>set bs. \<forall>j\<in>set b. j < length (fst data)) \<and> (\<forall>b\<in>set bs. \<forall>j\<in>set b. j < length delta)
        then
          (let avt = map (\<lambda>b. np_mean_axis0 (map (nth (map apbp (fst data))) b)) bs;
               avr = map (\<lambda>b. np_mean_axis0 (map (nth (map apbp (snd data))) b)) bs;
               norms = np_linalg_norm_axis1 avr;
               a_deltas = map2 (-) (map fst avt) (map fst avr);
               b_deltas = map2 (-) (map snd avt) (map snd avr);
               cosines = map (\<lambda>k. Fin (cos (bin_angle k))) [0..<16];
               sines = map (\<lambda>k. Fin (sin (bin_angle k))) [0..<16]
           in Inr (Specification_ANSIIESTM3018
                \<lparr> name = ColourRendering_Specification_CIE2017.name s,
                  sd_test = sd,
                  sd_reference = ColourRendering_Specification_CIE2017.sd_reference s,
                  R_f = ColourRendering_Specification_CIE2017.R_f s,
                  R_s = ColourRendering_Specification_CIE2017.R_s s,
                  CCT = ColourRendering_Specification_CIE2017.CCT s,
                  D_uv = ColourRendering_Specification_CIE2017.D_uv s,
                  colorimetry_data = data,
                  R_g = Fin 100 * (averages_area avt / averages_area avr),
                  bins = bs,
                  averages_test = avt,
                  averages_reference = avr,
                  average_norms = norms,
                  R_fs = map (\<lambda>i. d2r (np_mean (map (nth delta) (bs ! i)))) [0..<16],
                  R_cs = map2 (/) (map ((*) (Fin 100))
                                     (map2 (+) (map2 (*) a_deltas cosines)
                                               (map2 (*) b_deltas sines)))
                                   norms,
                  R_hs = map2 (/) (map2 (+) (map2 (*) (map uminus a_deltas) sines)
                                            (map2 (*) b_deltas cosines))
                                   norms \<rparr>))
        else Inl IndexError)"
proof -
  have idx: "(\<forall>b\<in>set (hue_bins ds). \<forall>j\<in>set b. j < length ds)" for ds
    using hue_bins_index_bound by blast
  have bm: "(\<forall>i\<in>{0..<16}. \<forall>j\<in>set (hue_bins ds ! i). j < n)
     \<longleftrightarrow> (\<forall>b\<in>set (hue_bins ds). \<forall>j\<in>set b. j < n)" for ds n
    by (auto simp: all_set_conv_all_nth length_hue_bins)
  show ?thesis
    unfolding colour_fidelity_index_ANSIIESTM3018_def
    by (simp add: assms Let_def averages_loop_16 length_hue_bins bin_means_eq idx bm bin_angle_def o_def
         ball_conj_distrib)
qed


lemma main_Inr_upstream:
  assumes "colour_fidelity_index_ANSIIESTM3018 cfi d2r sd True = Inr (Specification_ANSIIESTM3018 q)"
  obtains s where "cfi sd True = CIE2017_specification s"
  using assms unfolding colour_fidelity_index_ANSIIESTM3018_def
  by (cases "cfi sd True") simp_all

lemma main_well_formed:
  assumes "cfi sd True = CIE2017_specification s" "well_formed s"
  shows "\<exists>q. colour_fidelity_index_ANSIIESTM3018 cfi d2r sd True = Inr (Specification_ANSIIESTM3018 q)"
proof -
  have "\<forall>b\<in>set (hue_bins ds). \<forall>j\<in>set b. j < length ds" for ds
    using hue_bins_index_bound by blast
  then show ?thesis
    using assms(2) by (simp add: main_set[where cfi=cfi and sd=sd, OF assms(1)] Let_def well_formed_def)
qed

lemma main_fields:
  assumes "colour_fidelity_index_ANSIIESTM3018 cfi d2r sd True = Inr (Specification_ANSIIESTM3018 q)"
    and "cfi sd True = CIE2017_specification s"
  shows "colorimetry_data q = ColourRendering_Specification_CIE2017.colorimetry_data s"
    and "bins q = hue_bins (snd (colorimetry_data q))"
    and "averages_test q = map (\<lambda>b. np_mean_axis0 (map (nth (map apbp (fst (colorimetry_data q)))) b)) (bins q)"
    and "averages_reference q = map (\<lambda>b. np_mean_axis0 (map (nth (map apbp (snd (colorimetry_data q)))) b)) (bins q)"
    and "R_g q = Fin 100 * (averages_area (averages_test q) / averages_area (averages_reference q))"
    and "average_norms q = np_linalg_norm_axis1 (averages_reference q)"
    and "R_fs q = map (\<lambda>i. d2r (np_mean (map (nth (ColourRendering_Specification_CIE2017.delta_E_s s)) (bins q ! i)))) [0..<16]"
    and "R_cs q = map2 (/) (map ((*) (Fin 100))
                   (map2 (+) (map2 (*) (map2 (-) (map fst (averages_test q)) (map fst (averages_reference q))) (map (\<lambda>k. Fin (cos (bin_angle k))) [0..<16]))
                             (map2 (*) (map2 (-) (map snd (averages_test q)) (map snd (averages_reference q))) (map (\<lambda>k. Fin (sin (bin_angle k))) [0..<16]))))
                   (average_norms q)"
    and "R_hs q = map2 (/) 
                   (map2 (+) (map2 (*) (map uminus (map2 (-) (map fst (averages_test q)) (map fst (averages_reference q)))) (map (\<lambda>k. Fin (sin (bin_angle k))) [0..<16]))
                             (map2 (*) (map2 (-) (map snd (averages_test q)) (map snd (averages_reference q))) (map (\<lambda>k. Fin (cos (bin_angle k))) [0..<16])))
                   (average_norms q)"
  using assms(1) unfolding main_set[where cfi=cfi and sd=sd, OF assms(2)] Let_def
  by (auto split: if_splits)

lemma main_lengths:
  assumes "colour_fidelity_index_ANSIIESTM3018 cfi d2r sd True = Inr (Specification_ANSIIESTM3018 q)"
  shows "length (bins q) = 16"
    and "length (averages_test q) = 16"
    and "length (averages_reference q) = 16"
    and "length (average_norms q) = 16"
    and "length (R_fs q) = 16"
    and "length (R_cs q) = 16"
    and "length (R_hs q) = 16"
proof -
  from assms obtain s where s: "cfi sd True = CIE2017_specification s"
    by (rule main_Inr_upstream)
  note f = main_fields[OF assms s]
  show b: "length (bins q) = 16" by (simp add: f(2) length_hue_bins)
  show t: "length (averages_test q) = 16" by (subst f(3)) (simp add: b)
  show r: "length (averages_reference q) = 16" by (subst f(4)) (simp add: b)
  show n: "length (average_norms q) = 16" by (simp add: f(6) np_linalg_norm_axis1_def r)
  show "length (R_fs q) = 16" by (simp add: f(7))
  show "length (R_cs q) = 16" by (subst f(8)) (simp add: t r n)
  show "length (R_hs q) = 16" by (subst f(9)) (simp add: t r n)
qed

lemma main_nth:
  assumes "colour_fidelity_index_ANSIIESTM3018 cfi d2r sd True = Inr (Specification_ANSIIESTM3018 q)"
    and "i < 16"
  shows "averages_test q ! i = np_mean_axis0 (map (nth (map apbp (fst (colorimetry_data q)))) (bins q ! i))"
    and "averages_reference q ! i = np_mean_axis0 (map (nth (map apbp (snd (colorimetry_data q)))) (bins q ! i))"
    and "average_norms q ! i = 
           np_sqrt (fst (averages_reference q ! i) * fst (averages_reference q ! i)
                  + snd (averages_reference q ! i) * snd (averages_reference q ! i))"
    and "R_cs q ! i =
           Fin 100 * ((fst (averages_test q ! i) - fst (averages_reference q ! i)) * Fin (cos (bin_angle i))
                    + (snd (averages_test q ! i) - snd (averages_reference q ! i)) * Fin (sin (bin_angle i)))
           / average_norms q ! i"
    and "R_hs q ! i =
           (- (fst (averages_test q ! i) - fst (averages_reference q ! i)) * Fin (sin (bin_angle i))
            + (snd (averages_test q ! i) - snd (averages_reference q ! i)) * Fin (cos (bin_angle i)))
           / average_norms q ! i"
proof -
  from assms(1) obtain s where s: "cfi sd True = CIE2017_specification s"
    by (rule main_Inr_upstream)
  note f = main_fields[OF assms(1) s]
  note l = main_lengths[OF assms(1)]
  show "averages_test q ! i = np_mean_axis0 (map (nth (map apbp (fst (colorimetry_data q)))) (bins q ! i))"
    by (subst f(3)) (simp add: l assms(2))
  show "averages_reference q ! i = np_mean_axis0 (map (nth (map apbp (snd (colorimetry_data q)))) (bins q ! i))"
    by (subst f(4)) (simp add: l assms(2))
  show "average_norms q ! i = 
           np_sqrt (fst (averages_reference q ! i) * fst (averages_reference q ! i)
                  + snd (averages_reference q ! i) * snd (averages_reference q ! i))"
    by (simp add: f(6) np_linalg_norm_axis1_def l assms(2) split_beta)
  show "R_cs q ! i =
           Fin 100 * ((fst (averages_test q ! i) - fst (averages_reference q ! i)) * Fin (cos (bin_angle i))
                    + (snd (averages_test q ! i) - snd (averages_reference q ! i)) * Fin (sin (bin_angle i)))
           / average_norms q ! i"
    by (subst f(8)) (simp add: l assms(2))
  show "R_hs q ! i =
           (- (fst (averages_test q ! i) - fst (averages_reference q ! i)) * Fin (sin (bin_angle i))
            + (snd (averages_test q ! i) - snd (averages_reference q ! i)) * Fin (cos (bin_angle i)))
           / average_norms q ! i"
    by (subst f(9)) (simp add: l assms(2))
qed

lemmas upt16 = upt_rec[of _ "numeral _"] upt_rec[of _ "Suc _"]

section \<open>The bins partition the samples\<close>

lemma hue_bins_samples16:
  "hue_bins samples16 = [[0], [1], [2], [3], [4], [5], [6], [7], [8], [9], [10], [11], [12], [13], [14], [15]]"
  by (simp add: hue_bins_def samples16_def mk_sample_def hue_angle_def np_where_eq_def upt16)

text \<open>
  C3. For \<open>N \<ge> 1\<close> samples whose reference hue angles all lie in \<open>[0, 360)\<close>, the sixteen
  bins partition the index range \<open>{0..N-1}\<close>: every index lies in exactly one bin, no bin
  lists an index twice, and the union of the bins is the whole range.
\<close>

theorem hue_bins_partition:
  assumes "reference_data \<noteq> []"
    and "\<forall>sample\<in>set reference_data.
           float_le (Fin 0) (hue_angle sample) \<and> float_less (hue_angle sample) (Fin 360)"
  shows "length (hue_bins reference_data) = 16 \<and>
         (\<forall>k<length reference_data. \<exists>!b. b < 16 \<and> k \<in> set (hue_bins reference_data ! b)) \<and>
         (\<forall>b<16. distinct (hue_bins reference_data ! b)) \<and>
         (\<Union>b<16. set (hue_bins reference_data ! b)) = {..<length reference_data}"
proof (intro conjI allI impI)
  show "length (hue_bins reference_data) = 16" by (rule length_hue_bins)
next
  fix b :: nat assume "b < 16"
  then show "distinct (hue_bins reference_data ! b)" by (rule distinct_hue_bins)
next
  fix k assume k: "k < length reference_data"
  then have "reference_data ! k \<in> set reference_data" by simp
  with assms(2) obtain b where b: "b < 16"
      "np_floor (hue_angle (reference_data ! k) / Fin 22.5) = Fin (real b)"
    using hue_in_range_floor by blast
  show "\<exists>!b. b < 16 \<and> k \<in> set (hue_bins reference_data ! b)"
  proof (rule ex1I[of _ b])
    show "b < 16 \<and> k \<in> set (hue_bins reference_data ! b)"
      using b k by (simp add: in_hue_bins_iff)
  next
    fix c assume "c < 16 \<and> k \<in> set (hue_bins reference_data ! c)"
    then show "c = b" using b by (auto simp: in_hue_bins_iff)
  qed
next
  show "(\<Union>b<16. set (hue_bins reference_data ! b)) = {..<length reference_data}"
  proof (intro set_eqI iffI)
    fix k assume "k \<in> (\<Union>b<16. set (hue_bins reference_data ! b))"
    then show "k \<in> {..<length reference_data}" by (auto simp: in_hue_bins_iff)
  next
    fix k assume "k \<in> {..<length reference_data}"
    then have k: "k < length reference_data" by simp
    then have "reference_data ! k \<in> set reference_data" by simp
    with assms(2) obtain b where "b < 16"
      "np_floor (hue_angle (reference_data ! k) / Fin 22.5) = Fin (real b)"
      using hue_in_range_floor by blast
    then show "k \<in> (\<Union>b<16. set (hue_bins reference_data ! b))"
      using k by (auto simp: in_hue_bins_iff)
  qed
qed

theorem hue_bins_partition_witness:
  "samples16 \<noteq> [] \<and> length (hue_bins samples16) = 16 \<and>
   (\<Union>b<16. set (hue_bins samples16 ! b)) = {..<16} \<and>
   (\<exists>!b. b < 16 \<and> 5 \<in> set (hue_bins samples16 ! b)) \<and>
   hue_bins samples16 ! 5 = [5]"
proof -
  have ne: "samples16 \<noteq> []" by (simp add: samples16_def)
  have rng: "\<forall>sample\<in>set samples16.
           float_le (Fin 0) (hue_angle sample) \<and> float_less (hue_angle sample) (Fin 360)"
    by (simp add: samples16_def mk_sample_def hue_angle_def float_le_def)
  have len: "length samples16 = 16" by (simp add: samples16_def)
  show ?thesis
    using hue_bins_partition [OF ne rng] ne by (simp add: len hue_bins_samples16)
qed

section \<open>Bins are disjoint, and a stray hue angle is in none\<close>

lemma hue_bins_samples_stray:
  "hue_bins samples_stray = [[0], [3], [], [], [], [], [], [], [], [], [], [], [], [], [], []]"
  by (simp add: hue_bins_def samples_stray_def mk_sample_def hue_angle_def np_where_eq_def upt16)

text \<open>
  C10. For every input, whether or not the hue angles lie in \<open>[0, 360)\<close>, two different bins
  share no sample index.
\<close>

theorem hue_bins_disjoint:
  "b < 16 \<Longrightarrow> b' < 16 \<Longrightarrow> b \<noteq> b' \<Longrightarrow>
   set (hue_bins reference_data ! b) \<inter> set (hue_bins reference_data ! b') = {}"
  by (auto simp: in_hue_bins_iff)

theorem hue_bins_disjoint_witness:
  "set (hue_bins samples_stray ! 0) \<inter> set (hue_bins samples_stray ! 1) = {} \<and>
   hue_bins samples_stray ! 0 = [0] \<and> hue_bins samples_stray ! 1 = [3]"
  using hue_bins_disjoint [of 0 1 samples_stray] by (simp add: hue_bins_samples_stray)


lemma upstream_True: "upstream s sd True = CIE2017_specification s"
  by (simp add: upstream_def)

lemma well_formed_mk_specification:
  "well_formed (mk_specification test_data reference_data dE) \<longleftrightarrow>
     length test_data = length reference_data \<and> length dE = length reference_data"
  by (simp add: well_formed_def mk_specification_def)

lemma colorimetry_data_mk_specification:
  "ColourRendering_Specification_CIE2017.colorimetry_data (mk_specification t r dE) = (t, r)"
  by (simp add: mk_specification_def)



section \<open>The flag \<open>additional_data\<close>\<close>




section \<open>Sixteen entries, in the order of the bins\<close>

lemma floor_label_iff_sector:
  "np_floor (x / Fin 22.5) = Fin (real i) \<longleftrightarrow>
     float_le (Fin (22.5 * real i)) x \<and> float_less x (Fin (22.5 * (real i + 1)))"
proof (cases x)
  case (Fin h)
  have "(of_int \<lfloor>h / 22.5\<rfloor> = real i) \<longleftrightarrow> (\<lfloor>h / 22.5\<rfloor> = int i)"
    by (metis of_int_of_nat_eq of_int_eq_iff)
  also have "\<dots> \<longleftrightarrow> real i \<le> h / 22.5 \<and> h / 22.5 < real i + 1"
    by (simp add: floor_eq_iff)
  also have "\<dots> \<longleftrightarrow> 22.5 * real i \<le> h \<and> h < 22.5 * (real i + 1)"
    by (simp add: field_simps)
  finally show ?thesis using Fin by (auto simp: float_le_def)
qed (simp_all add: float_le_def)

lemma main_R_fs_nth:
  assumes "colour_fidelity_index_ANSIIESTM3018 cfi d2r sd True = Inr (Specification_ANSIIESTM3018 q)"
    and "cfi sd True = CIE2017_specification s"
    and "i < 16"
  shows "R_fs q ! i = d2r (np_mean (map (nth (ColourRendering_Specification_CIE2017.delta_E_s s)) (bins q ! i)))"
  by (subst main_fields(7)[OF assms(1,2)]) (simp add: assms(3))

text \<open>
  C5. For a valid input (\<open>additional_data\<close> set, hue angles in \<open>[0, 360)\<close>, every bin
  non-empty) the function returns a specification whose arrays \<open>R_fs\<close>, \<open>R_cs\<close>, \<open>R_hs\<close>,
  \<open>averages_test\<close> and \<open>averages_reference\<close> have sixteen entries each, and entry \<open>i\<close> of
  each is computed from bin \<open>i\<close>, the samples whose hue angle lies in
  \<open>[22.5 * i, 22.5 * (i + 1))\<close>.
\<close>

theorem output_arrays_sixteen:
  assumes "cfi sd True = CIE2017_specification s"
    and "well_formed s"
    and "data = ColourRendering_Specification_CIE2017.colorimetry_data s"
    and "\<forall>sample\<in>set (snd data).
           float_le (Fin 0) (hue_angle sample) \<and> float_less (hue_angle sample) (Fin 360)"
    and "\<forall>b<16. hue_bins (snd data) ! b \<noteq> []"
  shows "\<exists>q. colour_fidelity_index_ANSIIESTM3018 cfi d2r sd True =
               Inr (Specification_ANSIIESTM3018 q) \<and>
           length (R_fs q) = 16 \<and> length (R_cs q) = 16 \<and> length (R_hs q) = 16 \<and>
           length (averages_test q) = 16 \<and> length (averages_reference q) = 16 \<and>
           length (bins q) = 16 \<and>
           (\<forall>i<16.
              set (bins q ! i) =
                {k. k < length (snd data) \<and>
                    float_le (Fin (22.5 * real i)) (hue_angle (snd data ! k)) \<and>
                    float_less (hue_angle (snd data ! k)) (Fin (22.5 * (real i + 1)))} \<and>
              averages_test q ! i =
                np_mean_axis0 (map (nth (map apbp (fst data))) (bins q ! i)) \<and>
              averages_reference q ! i =
                np_mean_axis0 (map (nth (map apbp (snd data))) (bins q ! i)) \<and>
              R_fs q ! i =
                d2r (np_mean (map (nth (ColourRendering_Specification_CIE2017.delta_E_s s))
                                 (bins q ! i))) \<and>
              R_cs q ! i =
                Fin 100 *
                  ((fst (averages_test q ! i) - fst (averages_reference q ! i))
                     * Fin (cos (bin_angle i))
                   + (snd (averages_test q ! i) - snd (averages_reference q ! i))
                     * Fin (sin (bin_angle i)))
                / average_norms q ! i \<and>
              R_hs q ! i =
                (- (fst (averages_test q ! i) - fst (averages_reference q ! i))
                     * Fin (sin (bin_angle i))
                 + (snd (averages_test q ! i) - snd (averages_reference q ! i))
                     * Fin (cos (bin_angle i)))
                / average_norms q ! i)"
proof -
  from main_well_formed[where cfi=cfi and sd=sd, OF assms(1,2)] obtain q where
    q: "colour_fidelity_index_ANSIIESTM3018 cfi d2r sd True = Inr (Specification_ANSIIESTM3018 q)"
    by blast
  note f = main_fields(1,2)[OF q assms(1)]
  have cd: "colorimetry_data q = data" by (simp add: f(1) assms(3))
  have b: "bins q = hue_bins (snd data)" by (simp add: f(2) cd)
  have sector: "set (bins q ! i) =
                {k. k < length (snd data) \<and>
                    float_le (Fin (22.5 * real i)) (hue_angle (snd data ! k)) \<and>
                    float_less (hue_angle (snd data ! k)) (Fin (22.5 * (real i + 1)))}"
    if "i < 16" for i
    unfolding b using in_hue_bins_iff[OF that, of _ "snd data"] floor_label_iff_sector
    by blast
  show ?thesis
    using q main_lengths[OF q] sector main_nth[OF q] main_R_fs_nth[OF q assms(1)]
    by (intro exI[of _ q]) (simp add: cd)
qed


lemma samples16_hue_in_range:
  "\<forall>sample\<in>set samples16.
     float_le (Fin 0) (hue_angle sample) \<and> float_less (hue_angle sample) (Fin 360)"
  by (simp add: samples16_def mk_sample_def hue_angle_def float_le_def)

lemma samples16_bins_nonempty: "\<forall>b<16. hue_bins samples16 ! b \<noteq> []"
proof -
  have "\<forall>x\<in>set (hue_bins samples16). x \<noteq> []" by (simp add: hue_bins_samples16)
  then show ?thesis by (simp add: all_set_conv_all_nth length_hue_bins)
qed

lemma well_formed_specification16: "well_formed specification16"
  by (simp add: specification16_def well_formed_mk_specification samples16_def)

lemma colorimetry_data_specification16:
  "(samples16, samples16) = ColourRendering_Specification_CIE2017.colorimetry_data specification16"
  by (simp add: specification16_def colorimetry_data_mk_specification)

theorem output_arrays_sixteen_witness:
  "\<exists>q. colour_fidelity_index_ANSIIESTM3018 (upstream specification16) example_delta_E_to_R_f
          () True = Inr (Specification_ANSIIESTM3018 q) \<and>
       length (R_fs q) = 16 \<and> length (R_cs q) = 16 \<and> length (R_hs q) = 16 \<and>
       length (averages_test q) = 16 \<and> length (averages_reference q) = 16 \<and>
       bins q ! 3 = [3] \<and> averages_test q ! 3 = (Fin 1, Fin 4) \<and>
       averages_reference q ! 3 = (Fin 1, Fin 4) \<and> R_fs q ! 3 = Fin 100"
proof -
  note inst = output_arrays_sixteen [where cfi = "upstream specification16" and sd = "()"
      and d2r = example_delta_E_to_R_f and s = specification16
      and data = "(samples16, samples16)",
      OF upstream_True well_formed_specification16 colorimetry_data_specification16]
  have h4: "\<forall>sample\<in>set (snd (samples16, samples16)).
           float_le (Fin 0) (hue_angle sample) \<and> float_less (hue_angle sample) (Fin 360)"
    using samples16_hue_in_range by simp
  have h5: "\<forall>b<16. hue_bins (snd (samples16, samples16)) ! b \<noteq> []"
    using samples16_bins_nonempty by simp
  from inst [OF h4 h5] obtain q where
    q: "colour_fidelity_index_ANSIIESTM3018 (upstream specification16) example_delta_E_to_R_f
          () True = Inr (Specification_ANSIIESTM3018 q)"
    and len: "length (R_fs q) = 16" "length (R_cs q) = 16" "length (R_hs q) = 16"
      "length (averages_test q) = 16" "length (averages_reference q) = 16"
    and al: "\<forall>i<16.
              set (bins q ! i) =
                {k. k < length (snd (samples16, samples16)) \<and>
                    float_le (Fin (22.5 * real i)) (hue_angle (snd (samples16, samples16) ! k)) \<and>
                    float_less (hue_angle (snd (samples16, samples16) ! k)) (Fin (22.5 * (real i + 1)))} \<and>
              averages_test q ! i =
                np_mean_axis0 (map (nth (map apbp (fst (samples16, samples16)))) (bins q ! i)) \<and>
              averages_reference q ! i =
                np_mean_axis0 (map (nth (map apbp (snd (samples16, samples16)))) (bins q ! i)) \<and>
              R_fs q ! i =
                example_delta_E_to_R_f (np_mean (map (nth (ColourRendering_Specification_CIE2017.delta_E_s specification16))
                                 (bins q ! i))) \<and>
              R_cs q ! i =
                Fin 100 *
                  ((fst (averages_test q ! i) - fst (averages_reference q ! i))
                     * Fin (cos (bin_angle i))
                   + (snd (averages_test q ! i) - snd (averages_reference q ! i))
                     * Fin (sin (bin_angle i)))
                / average_norms q ! i \<and>
              R_hs q ! i =
                (- (fst (averages_test q ! i) - fst (averages_reference q ! i))
                     * Fin (sin (bin_angle i))
                 + (snd (averages_test q ! i) - snd (averages_reference q ! i))
                     * Fin (cos (bin_angle i)))
                / average_norms q ! i"
    by (elim exE conjE)
  have b: "bins q = hue_bins samples16"
    using main_fields(1,2)[OF q upstream_True]
    by (simp add: colorimetry_data_specification16[symmetric])
  then have b3: "bins q ! 3 = [3]" by (simp add: hue_bins_samples16)
  from al have a3:
     "averages_test q ! 3 = np_mean_axis0 (map (nth (map apbp samples16)) (bins q ! 3))"
     "averages_reference q ! 3 = np_mean_axis0 (map (nth (map apbp samples16)) (bins q ! 3))"
     "R_fs q ! 3 = example_delta_E_to_R_f (np_mean (map (nth (ColourRendering_Specification_CIE2017.delta_E_s specification16))
                                 (bins q ! 3)))"
    by simp_all
  have s3: "map apbp samples16 ! 3 = (Fin 1, Fin 4)"
    by (simp add: samples16_def mk_sample_def apbp_def)
  have "averages_test q ! 3 = (Fin 1, Fin 4)" "averages_reference q ! 3 = (Fin 1, Fin 4)"
    unfolding a3 b3 by (simp_all add: s3 np_mean_axis0_def np_mean_def zero_float64_def)
  moreover have "R_fs q ! 3 = Fin 100"
    unfolding a3 b3
    by (simp add: specification16_def mk_specification_def np_mean_def zero_float64_def
          example_delta_E_to_R_f_def)
  ultimately show ?thesis using q len b3 by (intro exI[of _ q]) simp
qed

section \<open>The gamut index\<close>

lemma float64_self_ratio: "is_finite x \<Longrightarrow> x \<noteq> Fin 0 \<Longrightarrow> Fin 100 * (x / x) = Fin 100"
  by (cases x) simp_all

lemma averages_specification16:
  assumes "colour_fidelity_index_ANSIIESTM3018 (upstream specification16) d2r () True =
             Inr (Specification_ANSIIESTM3018 q)"
  shows "averages_test q = polygon16" and "averages_reference q = polygon16"
proof -
  note f = main_fields[OF assms upstream_True]
  have cd: "colorimetry_data q = (samples16, samples16)"
    by (simp add: f(1) colorimetry_data_specification16[symmetric])
  have b: "bins q = hue_bins samples16" by (simp add: f(2) cd)
  have m: "map (\<lambda>b. np_mean_axis0 (map (nth (map apbp samples16)) b)) (hue_bins samples16)
             = polygon16"
    unfolding hue_bins_samples16
    by (simp add: samples16_def mk_sample_def apbp_def np_mean_axis0_def
          np_mean_def zero_float64_def polygon16_def)
  show "averages_test q = polygon16" by (subst f(3)) (simp add: cd b m)
  show "averages_reference q = polygon16" by (subst f(4)) (simp add: cd b m)
qed

text \<open>
  C2. The gamut index of the returned specification is 100 times the area of
  \<open>averages_test\<close> over the area of \<open>averages_reference\<close>; when the two arrays of averages
  are equal and the area of their polygon is a number other than zero, the gamut index
  is 100.
\<close>

theorem gamut_index_ratio:
  assumes "colour_fidelity_index_ANSIIESTM3018 cfi d2r sd True = Inr (Specification_ANSIIESTM3018 q)"
  shows "R_g q = Fin 100 * (averages_area (averages_test q) / averages_area (averages_reference q)) \<and>
         (averages_test q = averages_reference q \<and>
          is_finite (averages_area (averages_reference q)) \<and>
          averages_area (averages_reference q) \<noteq> Fin 0 \<longrightarrow> R_g q = Fin 100)"
proof -
  from assms obtain s where s: "cfi sd True = CIE2017_specification s"
    by (rule main_Inr_upstream)
  have g: "R_g q = Fin 100 * (averages_area (averages_test q) / averages_area (averages_reference q))"
    by (rule main_fields(5)[OF assms s])
  then show ?thesis by (simp add: float64_self_ratio)
qed

theorem gamut_index_ratio_witness:
  "\<exists>q. colour_fidelity_index_ANSIIESTM3018 (upstream specification16) example_delta_E_to_R_f
          () True = Inr (Specification_ANSIIESTM3018 q) \<and>
       averages_test q = polygon16 \<and> averages_reference q = polygon16 \<and>
       averages_area (averages_reference q) = Fin 46 \<and> R_g q = Fin 100"
proof -
  from main_well_formed[where cfi="upstream specification16" and sd="()",
      OF upstream_True well_formed_specification16]
  obtain q where q: "colour_fidelity_index_ANSIIESTM3018 (upstream specification16)
      example_delta_E_to_R_f () True = Inr (Specification_ANSIIESTM3018 q)"
    by blast
  note a = averages_specification16[OF q]
  have "R_g q = Fin 100"
    using gamut_index_ratio [OF q] by (simp add: a averages_area_polygon16)
  then show ?thesis using q a by (intro exI[of _ q]) (simp add: averages_area_polygon16)
qed

section \<open>Degenerate inputs\<close>

lemma float64_NaN_right [simp]:
  "x + NaN = NaN" "x - NaN = NaN" "x * NaN = NaN" "x / NaN = NaN"
  by (cases x; simp add: minus_float64_def)+

lemma float64_NaN_left [simp]: "NaN - x = NaN"
  by (simp add: minus_float64_def)

lemma np_mean_empty: "np_mean [] = NaN"
  by (simp add: np_mean_def zero_float64_def inf_of_sign_def)

lemma np_mean_axis0_empty: "np_mean_axis0 [] = (NaN, NaN)"
  by (simp add: np_mean_axis0_def np_mean_empty)

lemma sum_list_NaN: "NaN \<in> set xs \<Longrightarrow> sum_list xs = NaN"
  by (induction xs) auto

lemma averages_area_NaN:
  assumes "i < length ps" "ps ! i = (NaN, NaN)"
  shows "averages_area ps = NaN"
proof -
  have "triangle_area ps i = NaN"
    by (simp add: triangle_area_def Let_def assms(2))
  then have "NaN \<in> set (map (triangle_area ps) [0..<length ps])"
    using assms(1) by (auto simp: image_iff intro!: bexI[of _ i])
  then show ?thesis by (simp only: averages_area_sum_list sum_list_NaN)
qed

lemma divide_by_zero_not_finite: "\<not> is_finite (x / Fin 0)"
  by (cases x) (simp_all add: inf_of_sign_def)

lemma hundred_times_not_finite: "\<not> is_finite y \<Longrightarrow> \<not> is_finite (Fin 100 * y)"
  by (cases y) (simp_all add: inf_of_sign_def)


text \<open>
  C8. On an input with an empty bin, a reference average of norm zero or a reference
  polygon of area zero, the computation raises nothing and returns its specification.
  For an empty bin \<open>i\<close> the two averages, the norm and the two shifts of that bin are
  NaN, the local fidelity is \<open>delta_E_to_R_f\<close> of NaN, and the gamut index is NaN. Where
  the norm of bin \<open>i\<close> is zero the two shifts of that bin are an infinity or NaN; where
  the area of the reference polygon is zero the gamut index is an infinity or NaN.
\<close>

theorem degenerate_input_propagates:
  assumes "cfi sd True = CIE2017_specification s"
    and "well_formed s"
  shows "\<exists>q. colour_fidelity_index_ANSIIESTM3018 cfi d2r sd True =
               Inr (Specification_ANSIIESTM3018 q) \<and>
           (\<forall>i<16. bins q ! i = [] \<longrightarrow>
              averages_test q ! i = (NaN, NaN) \<and> averages_reference q ! i = (NaN, NaN) \<and>
              average_norms q ! i = NaN \<and> R_fs q ! i = d2r NaN \<and>
              R_cs q ! i = NaN \<and> R_hs q ! i = NaN \<and> R_g q = NaN) \<and>
           (\<forall>i<16. average_norms q ! i = Fin 0 \<longrightarrow>
              \<not> is_finite (R_cs q ! i) \<and> \<not> is_finite (R_hs q ! i)) \<and>
           (averages_area (averages_reference q) = Fin 0 \<longrightarrow> \<not> is_finite (R_g q))"
proof -
  from main_well_formed[where cfi=cfi and sd=sd, OF assms] obtain q where
    q: "colour_fidelity_index_ANSIIESTM3018 cfi d2r sd True = Inr (Specification_ANSIIESTM3018 q)"
    by blast
  note f = main_fields[OF q assms(1)]
  note l = main_lengths[OF q]
  have empty: "averages_test q ! i = (NaN, NaN) \<and> averages_reference q ! i = (NaN, NaN) \<and>
              average_norms q ! i = NaN \<and> R_fs q ! i = d2r NaN \<and>
              R_cs q ! i = NaN \<and> R_hs q ! i = NaN \<and> R_g q = NaN"
    if i: "i < 16" and e: "bins q ! i = []" for i
  proof -
    note n = main_nth[OF q i]
    have t: "averages_test q ! i = (NaN, NaN)" by (simp add: n(1) e np_mean_axis0_empty)
    have r: "averages_reference q ! i = (NaN, NaN)" by (simp add: n(2) e np_mean_axis0_empty)
    have no: "average_norms q ! i = NaN" by (simp add: n(3) r)
    have fs: "R_fs q ! i = d2r NaN"
      by (simp add: main_R_fs_nth[OF q assms(1) i] e np_mean_empty)
    have cs: "R_cs q ! i = NaN" by (simp add: n(4) no)
    have hs: "R_hs q ! i = NaN" by (simp add: n(5) no)
    have "averages_area (averages_test q) = NaN"
      using averages_area_NaN[of i "averages_test q"] i t l by simp
    then have "R_g q = NaN" by (simp add: f(5))
    with t r no fs cs hs show ?thesis by simp
  qed
  have zero_norm: "\<not> is_finite (R_cs q ! i) \<and> \<not> is_finite (R_hs q ! i)"
    if i: "i < 16" and z: "average_norms q ! i = Fin 0" for i
    using main_nth(4,5)[OF q i] by (simp add: z divide_by_zero_not_finite)
  have zero_area: "\<not> is_finite (R_g q)" if "averages_area (averages_reference q) = Fin 0"
    by (simp add: f(5) that divide_by_zero_not_finite hundred_times_not_finite)
  from q empty zero_norm zero_area show ?thesis
    by (intro exI[of _ q]) simp
qed

lemma bins_specification_stray:
  assumes "colour_fidelity_index_ANSIIESTM3018 (upstream specification_stray) d2r () True =
             Inr (Specification_ANSIIESTM3018 q)"
  shows "bins q = hue_bins samples_stray"
  using main_fields(1,2)[OF assms upstream_True]
  by (simp add: specification_stray_def colorimetry_data_mk_specification)

lemma well_formed_specification_stray: "well_formed specification_stray"
  by (simp add: specification_stray_def well_formed_mk_specification samples_stray_def)

lemma well_formed_specification_origin: "well_formed specification_origin"
  by (simp add: specification_origin_def well_formed_mk_specification samples16_def
        samples16_origin_def)

lemma hue_bins_origin: "hue_bins samples16_origin = hue_bins samples16"
  by (simp add: samples16_origin_def hue_bins_def hue_angle_def np_where_eq_def o_def)

lemma means_origin:
  "p \<in> set (map (\<lambda>b. np_mean_axis0 (map (nth (map apbp samples16_origin)) b))
              (hue_bins samples16))
   \<Longrightarrow> p = (Fin 0, Fin 0)"
  unfolding hue_bins_samples16
  by (auto simp: samples16_origin_def samples16_def mk_sample_def apbp_def
        np_mean_axis0_def np_mean_def zero_float64_def)

lemma averages_area_all_origin:
  assumes "\<forall>p\<in>set ps. p = (Fin 0, Fin 0)"
  shows "averages_area ps = Fin 0"
proof -
  have "triangle_area ps i = 0" if "i < length ps" for i
  proof -
    have "ps \<noteq> []" using that by auto
    then have "Suc i mod length ps < length ps" by simp
    then have "ps ! (Suc i mod length ps) = (Fin 0, Fin 0)" "ps ! i = (Fin 0, Fin 0)"
      using assms that by (simp_all add: all_set_conv_all_nth)
    then show ?thesis by (simp add: triangle_area_def Let_def zero_float64_def)
  qed
  then have "(\<Sum>i<length ps. triangle_area ps i) = 0" by simp
  then show ?thesis by (simp add: averages_area_sum zero_float64_def)
qed

lemma averages_reference_origin:
  assumes "colour_fidelity_index_ANSIIESTM3018 (upstream specification_origin) d2r () True =
             Inr (Specification_ANSIIESTM3018 q)"
  shows "\<forall>p\<in>set (averages_reference q). p = (Fin 0, Fin 0)"
proof -
  note f = main_fields[OF assms upstream_True]
  have cd: "colorimetry_data q = (samples16, samples16_origin)"
    by (simp add: f(1) specification_origin_def colorimetry_data_mk_specification)
  have b: "bins q = hue_bins samples16" by (simp add: f(2) cd hue_bins_origin)
  have "averages_reference q =
      map (\<lambda>b. np_mean_axis0 (map (nth (map apbp samples16_origin)) b)) (hue_bins samples16)"
    by (subst f(4)) (simp add: cd b)
  then show ?thesis using means_origin by simp
qed

theorem degenerate_input_propagates_witness:
  "(\<exists>q. colour_fidelity_index_ANSIIESTM3018 (upstream specification_stray)
           example_delta_E_to_R_f () True = Inr (Specification_ANSIIESTM3018 q) \<and>
        bins q ! 2 = [] \<and> averages_test q ! 2 = (NaN, NaN) \<and> R_cs q ! 2 = NaN \<and>
        R_g q = NaN) \<and>
   (\<exists>q. colour_fidelity_index_ANSIIESTM3018 (upstream specification_origin)
           example_delta_E_to_R_f () True = Inr (Specification_ANSIIESTM3018 q) \<and>
        average_norms q ! 0 = Fin 0 \<and> \<not> is_finite (R_cs q ! 0) \<and> \<not> is_finite (R_hs q ! 0) \<and>
        averages_area (averages_reference q) = Fin 0 \<and> \<not> is_finite (R_g q))"
proof (rule conjI)
  from degenerate_input_propagates [where cfi = "upstream specification_stray" and sd = "()"
      and d2r = example_delta_E_to_R_f, OF upstream_True well_formed_specification_stray]
  obtain q where q: "colour_fidelity_index_ANSIIESTM3018 (upstream specification_stray)
           example_delta_E_to_R_f () True = Inr (Specification_ANSIIESTM3018 q)"
    and e: "\<forall>i<16. bins q ! i = [] \<longrightarrow>
              averages_test q ! i = (NaN, NaN) \<and> averages_reference q ! i = (NaN, NaN) \<and>
              average_norms q ! i = NaN \<and> R_fs q ! i = example_delta_E_to_R_f NaN \<and>
              R_cs q ! i = NaN \<and> R_hs q ! i = NaN \<and> R_g q = NaN"
    by (elim exE conjE)
  have b2: "bins q ! 2 = []"
    by (simp add: bins_specification_stray[OF q] hue_bins_samples_stray)
  with e[rule_format, of 2]
  have "averages_test q ! 2 = (NaN, NaN) \<and> R_cs q ! 2 = NaN \<and> R_g q = NaN" by simp
  with q b2 show "\<exists>q. colour_fidelity_index_ANSIIESTM3018 (upstream specification_stray)
           example_delta_E_to_R_f () True = Inr (Specification_ANSIIESTM3018 q) \<and>
        bins q ! 2 = [] \<and> averages_test q ! 2 = (NaN, NaN) \<and> R_cs q ! 2 = NaN \<and>
        R_g q = NaN"
    by (intro exI[of _ q]) simp
next
  from degenerate_input_propagates [where cfi = "upstream specification_origin" and sd = "()"
      and d2r = example_delta_E_to_R_f, OF upstream_True well_formed_specification_origin]
  obtain q where q: "colour_fidelity_index_ANSIIESTM3018 (upstream specification_origin)
           example_delta_E_to_R_f () True = Inr (Specification_ANSIIESTM3018 q)"
    and z: "\<forall>i<16. average_norms q ! i = Fin 0 \<longrightarrow>
              \<not> is_finite (R_cs q ! i) \<and> \<not> is_finite (R_hs q ! i)"
    and a: "averages_area (averages_reference q) = Fin 0 \<longrightarrow> \<not> is_finite (R_g q)"
    by (elim exE conjE)
  note r = averages_reference_origin[OF q]
  have "0 < length (averages_reference q)" by (simp add: main_lengths[OF q])
  with r have "averages_reference q ! 0 = (Fin 0, Fin 0)" by (simp add: all_set_conv_all_nth)
  then have n0: "average_norms q ! 0 = Fin 0"
    using main_nth(3)[OF q, of 0] by simp
  have a0: "averages_area (averages_reference q) = Fin 0"
    using r by (rule averages_area_all_origin)
  from z[rule_format, of 0] n0
  have "\<not> is_finite (R_cs q ! 0) \<and> \<not> is_finite (R_hs q ! 0)" by simp
  moreover from a a0 have "\<not> is_finite (R_g q)" by simp
  ultimately show "\<exists>q. colour_fidelity_index_ANSIIESTM3018 (upstream specification_origin)
           example_delta_E_to_R_f () True = Inr (Specification_ANSIIESTM3018 q) \<and>
        average_norms q ! 0 = Fin 0 \<and> \<not> is_finite (R_cs q ! 0) \<and> \<not> is_finite (R_hs q ! 0) \<and>
        averages_area (averages_reference q) = Fin 0 \<and> \<not> is_finite (R_g q)"
    using q n0 a0 by (intro exI[of _ q]) simp
qed

section \<open>Chroma shift and hue shift\<close>

lemma is_finite_iff: "is_finite x \<longleftrightarrow> (\<exists>a. x = Fin a)"
  by (cases x) simp_all

lemma is_finite_add: "is_finite (x + y) \<Longrightarrow> is_finite x \<and> is_finite y"
  by (cases x; cases y) simp_all

lemma is_finite_minus: "is_finite (x - y) \<Longrightarrow> is_finite x \<and> is_finite y"
  by (cases x; cases y) (simp_all add: minus_float64_def)

lemma is_finite_uminus: "is_finite (- x) \<Longrightarrow> is_finite x"
  by (cases x) simp_all

lemma is_finite_times_Fin: "is_finite (x * Fin c) \<Longrightarrow> is_finite x"
  by (cases x) (auto simp: inf_of_sign_def split: if_splits)

lemma np_sqrt_sum_squares: "np_sqrt (Fin a * Fin a + Fin b * Fin b) = Fin (sqrt (a * a + b * b))"
  by (simp add: not_less)

lemma projections_pythagoras:
  fixes da db t :: real
  shows "(da * cos t + db * sin t) * (da * cos t + db * sin t)
       + (- da * sin t + db * cos t) * (- da * sin t + db * cos t) = da * da + db * db"
proof -
  have "cos t * cos t + sin t * sin t = 1"
    by (rule sin_cos_squared_add3)
  then show ?thesis by algebra
qed

lemma length_of_radial:
  fixes da db t :: real
  assumes "- da * sin t + db * cos t = 0"
  shows "sqrt (da * da + db * db) = \<bar>da * cos t + db * sin t\<bar>"
proof -
  have "da * da + db * db = (da * cos t + db * sin t) * (da * cos t + db * sin t)"
    using projections_pythagoras[of da t db] assms by simp
  then show ?thesis by (simp add: real_sqrt_abs2)
qed

lemma length_of_tangential:
  fixes da db t :: real
  assumes "da * cos t + db * sin t = 0"
  shows "sqrt (da * da + db * db) = \<bar>- da * sin t + db * cos t\<bar>"
proof -
  have "da * da + db * db = (- da * sin t + db * cos t) * (- da * sin t + db * cos t)"
    using projections_pythagoras[of da t db] assms by simp
  then show ?thesis by (simp only: real_sqrt_abs2)
qed


lemma averages_finite_of_tangential:
  assumes "is_finite (tangential_component q i)"
  obtains a b c d where "averages_test q ! i = (Fin a, Fin b)"
    and "averages_reference q ! i = (Fin c, Fin d)"
proof -
  from assms have
    "is_finite (fst (averages_test q ! i) - fst (averages_reference q ! i))"
    "is_finite (snd (averages_test q ! i) - snd (averages_reference q ! i))"
    unfolding tangential_component_def
    by (blast dest: is_finite_add is_finite_times_Fin is_finite_uminus)+
  then have "is_finite (fst (averages_test q ! i))" "is_finite (fst (averages_reference q ! i))"
    "is_finite (snd (averages_test q ! i))" "is_finite (snd (averages_reference q ! i))"
    by (blast dest: is_finite_minus)+
  then show thesis
    using that by (cases "averages_test q ! i"; cases "averages_reference q ! i")
      (auto simp: is_finite_iff)
qed

lemma averages_finite_of_radial:
  assumes "is_finite (radial_component q i)"
  obtains a b c d where "averages_test q ! i = (Fin a, Fin b)"
    and "averages_reference q ! i = (Fin c, Fin d)"
proof -
  from assms have
    "is_finite (fst (averages_test q ! i) - fst (averages_reference q ! i))"
    "is_finite (snd (averages_test q ! i) - snd (averages_reference q ! i))"
    unfolding radial_component_def
    by (blast dest: is_finite_add is_finite_times_Fin)+
  then have "is_finite (fst (averages_test q ! i))" "is_finite (fst (averages_reference q ! i))"
    "is_finite (snd (averages_test q ! i))" "is_finite (snd (averages_reference q ! i))"
    by (blast dest: is_finite_minus)+
  then show thesis
    using that by (cases "averages_test q ! i"; cases "averages_reference q ! i")
      (auto simp: is_finite_iff)
qed

lemma shifts_of_finite_averages:
  assumes q: "colour_fidelity_index_ANSIIESTM3018 cfi d2r sd True = Inr (Specification_ANSIIESTM3018 q)"
    and i: "i < 16"
    and t: "averages_test q ! i = (Fin a, Fin b)"
    and r: "averages_reference q ! i = (Fin c, Fin d)"
  shows "average_norms q ! i = Fin (sqrt (c * c + d * d))"
    and "radial_component q i = Fin ((a - c) * cos (bin_angle i) + (b - d) * sin (bin_angle i))"
    and "tangential_component q i =
           Fin (- (a - c) * sin (bin_angle i) + (b - d) * cos (bin_angle i))"
    and "delta_norm q i = Fin (sqrt ((a - c) * (a - c) + (b - d) * (b - d)))"
    and "R_cs q ! i =
           Fin 100 * Fin ((a - c) * cos (bin_angle i) + (b - d) * sin (bin_angle i))
             / Fin (sqrt (c * c + d * d))"
    and "R_hs q ! i =
           Fin (- (a - c) * sin (bin_angle i) + (b - d) * cos (bin_angle i))
             / Fin (sqrt (c * c + d * d))"
proof -
  note n = main_nth[OF q i]
  show no: "average_norms q ! i = Fin (sqrt (c * c + d * d))"
    unfolding n(3) r by (simp only: fst_conv snd_conv np_sqrt_sum_squares)
  show "radial_component q i = Fin ((a - c) * cos (bin_angle i) + (b - d) * sin (bin_angle i))"
    by (simp add: radial_component_def t r)
  show "tangential_component q i =
           Fin (- (a - c) * sin (bin_angle i) + (b - d) * cos (bin_angle i))"
    by (simp add: tangential_component_def t r)
  show "delta_norm q i = Fin (sqrt ((a - c) * (a - c) + (b - d) * (b - d)))"
    unfolding delta_norm_def t r
    by (simp only: fst_conv snd_conv Fin_minus np_sqrt_sum_squares)
  show "R_cs q ! i =
           Fin 100 * Fin ((a - c) * cos (bin_angle i) + (b - d) * sin (bin_angle i))
             / Fin (sqrt (c * c + d * d))"
    unfolding n(4) no by (simp add: t r)
  show "R_hs q ! i =
           Fin (- (a - c) * sin (bin_angle i) + (b - d) * cos (bin_angle i))
             / Fin (sqrt (c * c + d * d))"
    unfolding n(5) no by (simp add: t r)
qed


lemma float_le_Fin [simp]: "float_le (Fin x) (Fin y) \<longleftrightarrow> x \<le> y"
  by (auto simp: float_le_def)

lemma radial_case:
  assumes q: "colour_fidelity_index_ANSIIESTM3018 cfi d2r sd True = Inr (Specification_ANSIIESTM3018 q)"
    and i: "i < 16"
    and nz: "average_norms q ! i \<noteq> Fin 0"
    and tz: "tangential_component q i = Fin 0"
  shows "R_hs q ! i = Fin 0"
    and "float_le (Fin 0) (radial_component q i) \<Longrightarrow>
           R_cs q ! i = Fin 100 * delta_norm q i / average_norms q ! i"
    and "float_less (radial_component q i) (Fin 0) \<Longrightarrow>
           R_cs q ! i = - (Fin 100 * delta_norm q i / average_norms q ! i)"
proof -
  from tz have "is_finite (tangential_component q i)" by simp
  then obtain a b c d where t: "averages_test q ! i = (Fin a, Fin b)"
    and r: "averages_reference q ! i = (Fin c, Fin d)"
    by (rule averages_finite_of_tangential)
  define n where "n = sqrt (c * c + d * d)"
  define rad where "rad = (a - c) * cos (bin_angle i) + (b - d) * sin (bin_angle i)"
  define tn where "tn = - (a - c) * sin (bin_angle i) + (b - d) * cos (bin_angle i)"
  note s = shifts_of_finite_averages[OF q i t r, folded n_def rad_def tn_def]
  have n: "n \<noteq> 0" using nz s(1) by simp
  have tn: "tn = 0" using tz s(3) by simp
  have "sqrt ((a - c) * (a - c) + (b - d) * (b - d)) = \<bar>rad\<bar>"
    unfolding rad_def using tn[unfolded tn_def] by (rule length_of_radial)
  then have dn: "delta_norm q i = Fin \<bar>rad\<bar>" by (simp only: s(4))
  show "R_hs q ! i = Fin 0"
    unfolding s(6) using n tn by simp
  show "R_cs q ! i = Fin 100 * delta_norm q i / average_norms q ! i"
    if "float_le (Fin 0) (radial_component q i)"
    using that n unfolding dn s by simp
  show "R_cs q ! i = - (Fin 100 * delta_norm q i / average_norms q ! i)"
    if "float_less (radial_component q i) (Fin 0)"
    using that n unfolding dn s by simp
qed

lemma tangential_case:
  assumes q: "colour_fidelity_index_ANSIIESTM3018 cfi d2r sd True = Inr (Specification_ANSIIESTM3018 q)"
    and i: "i < 16"
    and nz: "average_norms q ! i \<noteq> Fin 0"
    and rz: "radial_component q i = Fin 0"
  shows "R_cs q ! i = Fin 0"
    and "float_le (Fin 0) (tangential_component q i) \<Longrightarrow>
           R_hs q ! i = delta_norm q i / average_norms q ! i"
    and "float_less (tangential_component q i) (Fin 0) \<Longrightarrow>
           R_hs q ! i = - (delta_norm q i / average_norms q ! i)"
proof -
  from rz have "is_finite (radial_component q i)" by simp
  then obtain a b c d where t: "averages_test q ! i = (Fin a, Fin b)"
    and r: "averages_reference q ! i = (Fin c, Fin d)"
    by (rule averages_finite_of_radial)
  define n where "n = sqrt (c * c + d * d)"
  define rad where "rad = (a - c) * cos (bin_angle i) + (b - d) * sin (bin_angle i)"
  define tn where "tn = - (a - c) * sin (bin_angle i) + (b - d) * cos (bin_angle i)"
  note s = shifts_of_finite_averages[OF q i t r, folded n_def rad_def tn_def]
  have n: "n \<noteq> 0" using nz s(1) by simp
  have rad: "rad = 0" using rz s(2) by simp
  have "sqrt ((a - c) * (a - c) + (b - d) * (b - d)) = \<bar>tn\<bar>"
    unfolding tn_def using rad[unfolded rad_def] by (rule length_of_tangential)
  then have dn: "delta_norm q i = Fin \<bar>tn\<bar>" by (simp only: s(4))
  show "R_cs q ! i = Fin 0"
    unfolding s(5) using n rad by simp
  show "R_hs q ! i = delta_norm q i / average_norms q ! i"
    if "float_le (Fin 0) (tangential_component q i)"
    using that n unfolding dn s by simp
  show "R_hs q ! i = - (delta_norm q i / average_norms q ! i)"
    if "float_less (tangential_component q i) (Fin 0)"
    using that n unfolding dn s by simp
qed


text \<open>
  C4, as amended. For a bin \<open>i\<close> whose reference average has a norm other than zero: if
  the tangential component of the difference of the averages is zero then \<open>R_hs[i] = 0\<close>,
  and \<open>R_cs[i]\<close> is \<open>100 * |delta| / norm\<close> when the radial component is not negative and
  \<open>- 100 * |delta| / norm\<close> when it is negative; if the radial component is zero then
  \<open>R_cs[i] = 0\<close>, and \<open>R_hs[i]\<close> is \<open>|delta| / norm\<close> when the tangential component is
  not negative and \<open>- |delta| / norm\<close> when it is negative.
\<close>

theorem local_shifts_signed:
  assumes "colour_fidelity_index_ANSIIESTM3018 cfi d2r sd True = Inr (Specification_ANSIIESTM3018 q)"
    and "i < 16"
    and "average_norms q ! i \<noteq> Fin 0"
  shows "(tangential_component q i = Fin 0 \<longrightarrow>
            R_hs q ! i = Fin 0 \<and>
            (float_le (Fin 0) (radial_component q i) \<longrightarrow>
               R_cs q ! i = Fin 100 * delta_norm q i / average_norms q ! i) \<and>
            (float_less (radial_component q i) (Fin 0) \<longrightarrow>
               R_cs q ! i = - (Fin 100 * delta_norm q i / average_norms q ! i))) \<and>
         (radial_component q i = Fin 0 \<longrightarrow>
            R_cs q ! i = Fin 0 \<and>
            (float_le (Fin 0) (tangential_component q i) \<longrightarrow>
               R_hs q ! i = delta_norm q i / average_norms q ! i) \<and>
            (float_less (tangential_component q i) (Fin 0) \<longrightarrow>
               R_hs q ! i = - (delta_norm q i / average_norms q ! i)))"
  using radial_case[OF assms] tangential_case[OF assms] by blast

lemma hue_bins_one_sample:
  "hue_bins [mk_sample 11.25 c d] = [[0], [], [], [], [], [], [], [], [], [], [], [], [], [], [], []]"
  by (simp add: hue_bins_def mk_sample_def hue_angle_def np_where_eq_def upt16)

lemma one_sample_averages:
  assumes "colour_fidelity_index_ANSIIESTM3018
             (upstream (mk_specification [mk_sample h a b] [mk_sample 11.25 c d] [dE]))
             d2r () True = Inr (Specification_ANSIIESTM3018 q)"
  shows "averages_test q ! 0 = (Fin a, Fin b)" and "averages_reference q ! 0 = (Fin c, Fin d)"
proof -
  note f = main_fields(1,2)[OF assms upstream_True]
  have cd: "colorimetry_data q = ([mk_sample h a b], [mk_sample 11.25 c d])"
    by (simp add: f(1) colorimetry_data_mk_specification)
  have b: "bins q ! 0 = [0]"
    unfolding f(2) cd by (simp only: snd_conv hue_bins_one_sample nth_Cons_0)
  show "averages_test q ! 0 = (Fin a, Fin b)"
    by (simp add: main_nth(1)[OF assms] cd b np_mean_axis0_def np_mean_def apbp_def
          mk_sample_def zero_float64_def)
  show "averages_reference q ! 0 = (Fin c, Fin d)"
    by (simp add: main_nth(2)[OF assms] cd b np_mean_axis0_def np_mean_def apbp_def
          mk_sample_def zero_float64_def)
qed

lemma one_sample_returns:
  "\<exists>q. colour_fidelity_index_ANSIIESTM3018
         (upstream (mk_specification [mk_sample h a b] [mk_sample 11.25 c d] [dE]))
         d2r () True = Inr (Specification_ANSIIESTM3018 q)"
  by (rule main_well_formed[where cfi="upstream (mk_specification [mk_sample h a b] [mk_sample 11.25 c d] [dE])" and sd="()", OF upstream_True])
     (simp add: well_formed_mk_specification)

lemma desaturated_values:
  assumes "colour_fidelity_index_ANSIIESTM3018 (upstream specification_desaturated)
             d2r () True = Inr (Specification_ANSIIESTM3018 q)"
  shows "average_norms q ! 0 = Fin 2"
    and "tangential_component q 0 = Fin 0"
    and "radial_component q 0 = Fin (- 1)"
    and "delta_norm q 0 = Fin 1"
    and "R_cs q ! 0 = Fin (- 50)"
    and "R_hs q ! 0 = Fin 0"
proof -
  define c where "c = cos (bin_angle 0)"
  define s where "s = sin (bin_angle 0)"
  have u: "c * c + s * s = 1" unfolding c_def s_def by (rule sin_cos_squared_add3)
  have n: "(2 * c) * (2 * c) + (2 * s) * (2 * s) = 4" using u by algebra
  have t: "- (c - 2 * c) * s + (s - 2 * s) * c = 0" by algebra
  have r: "(c - 2 * c) * c + (s - 2 * s) * s = - 1" using u by algebra
  have d: "(c - 2 * c) * (c - 2 * c) + (s - 2 * s) * (s - 2 * s) = 1" using u by algebra
  note a = one_sample_averages[OF assms[unfolded specification_desaturated_def],
      folded c_def s_def]
  have i0: "(0::nat) < 16" by simp
  note v = shifts_of_finite_averages[OF assms i0 a, folded c_def s_def]
  show "average_norms q ! 0 = Fin 2" using v(1) n by simp
  show "tangential_component q 0 = Fin 0" using v(3) t by simp
  show "radial_component q 0 = Fin (- 1)" using v(2) r by simp
  show "delta_norm q 0 = Fin 1" using v(4) d by simp
  show "R_cs q ! 0 = Fin (- 50)" using v(5) r n by simp
  show "R_hs q ! 0 = Fin 0" using v(6) t n by simp
qed


lemma hue_shifted_values:
  assumes "colour_fidelity_index_ANSIIESTM3018 (upstream specification_hue_shifted)
             d2r () True = Inr (Specification_ANSIIESTM3018 q)"
  shows "average_norms q ! 0 = Fin 2"
    and "radial_component q 0 = Fin 0"
    and "tangential_component q 0 = Fin 1"
    and "delta_norm q 0 = Fin 1"
proof -
  define c where "c = cos (bin_angle 0)"
  define s where "s = sin (bin_angle 0)"
  have u: "c * c + s * s = 1" unfolding c_def s_def by (rule sin_cos_squared_add3)
  have n: "(2 * c) * (2 * c) + (2 * s) * (2 * s) = 4" using u by algebra
  have r: "(2 * c - s - 2 * c) * c + (2 * s + c - 2 * s) * s = 0" by algebra
  have t: "- (2 * c - s - 2 * c) * s + (2 * s + c - 2 * s) * c = 1" using u by algebra
  have d: "(2 * c - s - 2 * c) * (2 * c - s - 2 * c)
           + (2 * s + c - 2 * s) * (2 * s + c - 2 * s) = 1" using u by algebra
  note a = one_sample_averages[OF assms[unfolded specification_hue_shifted_def],
      folded c_def s_def]
  have i0: "(0::nat) < 16" by simp
  note v = shifts_of_finite_averages[OF assms i0 a, folded c_def s_def]
  show "average_norms q ! 0 = Fin 2" using v(1) n by simp
  show "radial_component q 0 = Fin 0" using v(2) r by simp
  show "tangential_component q 0 = Fin 1" using v(3) t by simp
  show "delta_norm q 0 = Fin 1" using v(4) d by simp
qed

lemma desaturated_returns:
  "\<exists>q. colour_fidelity_index_ANSIIESTM3018 (upstream specification_desaturated)
          d2r () True = Inr (Specification_ANSIIESTM3018 q)"
  unfolding specification_desaturated_def by (rule one_sample_returns)

lemma hue_shifted_returns:
  "\<exists>q. colour_fidelity_index_ANSIIESTM3018 (upstream specification_hue_shifted)
          d2r () True = Inr (Specification_ANSIIESTM3018 q)"
  unfolding specification_hue_shifted_def by (rule one_sample_returns)

text \<open>
  C4 as stated fails where the test average lies closer to the origin than the reference
  average: the difference is purely radial, \<open>100 * |delta| / norm\<close> is 50, and \<open>R_cs[0]\<close>
  is \<open>- 50\<close>.
\<close>

theorem chroma_shift_sign_counterexample:
  "\<exists>q. colour_fidelity_index_ANSIIESTM3018 (upstream specification_desaturated)
          example_delta_E_to_R_f () True = Inr (Specification_ANSIIESTM3018 q) \<and>
       average_norms q ! 0 = Fin 2 \<and>
       tangential_component q 0 = Fin 0 \<and>
       Fin 100 * delta_norm q 0 / average_norms q ! 0 = Fin 50 \<and>
       R_cs q ! 0 = Fin (- 50) \<and>
       R_cs q ! 0 \<noteq> Fin 100 * delta_norm q 0 / average_norms q ! 0"
proof -
  from desaturated_returns
  obtain q where q: "colour_fidelity_index_ANSIIESTM3018 (upstream specification_desaturated)
          example_delta_E_to_R_f () True = Inr (Specification_ANSIIESTM3018 q)" ..
  note v = desaturated_values[OF q]
  show ?thesis
    using q by (intro exI[of _ q]) (simp add: v)
qed

theorem local_shifts_signed_witness:
  "(\<exists>q. colour_fidelity_index_ANSIIESTM3018 (upstream specification_desaturated)
           example_delta_E_to_R_f () True = Inr (Specification_ANSIIESTM3018 q) \<and>
        tangential_component q 0 = Fin 0 \<and> radial_component q 0 = Fin (- 1) \<and>
        R_hs q ! 0 = Fin 0 \<and> R_cs q ! 0 = Fin (- 50)) \<and>
   (\<exists>q. colour_fidelity_index_ANSIIESTM3018 (upstream specification_hue_shifted)
           example_delta_E_to_R_f () True = Inr (Specification_ANSIIESTM3018 q) \<and>
        radial_component q 0 = Fin 0 \<and> tangential_component q 0 = Fin 1 \<and>
        R_cs q ! 0 = Fin 0 \<and> R_hs q ! 0 = Fin (1 / 2))"
proof (rule conjI)
  from desaturated_returns
  obtain q where q: "colour_fidelity_index_ANSIIESTM3018 (upstream specification_desaturated)
          example_delta_E_to_R_f () True = Inr (Specification_ANSIIESTM3018 q)" ..
  note v = desaturated_values(1-4)[OF q]
  have i0: "(0::nat) < 16" by simp
  have nz: "average_norms q ! 0 \<noteq> Fin 0" by (simp add: v)
  from local_shifts_signed [OF q i0 nz]
  have "R_hs q ! 0 = Fin 0 \<and> R_cs q ! 0 = Fin (- 50)" by (simp add: v)
  then show "\<exists>q. colour_fidelity_index_ANSIIESTM3018 (upstream specification_desaturated)
           example_delta_E_to_R_f () True = Inr (Specification_ANSIIESTM3018 q) \<and>
        tangential_component q 0 = Fin 0 \<and> radial_component q 0 = Fin (- 1) \<and>
        R_hs q ! 0 = Fin 0 \<and> R_cs q ! 0 = Fin (- 50)"
    using q by (intro exI[of _ q]) (simp add: v)
next
  from hue_shifted_returns
  obtain q where q: "colour_fidelity_index_ANSIIESTM3018 (upstream specification_hue_shifted)
          example_delta_E_to_R_f () True = Inr (Specification_ANSIIESTM3018 q)" ..
  note v = hue_shifted_values[OF q]
  have i0: "(0::nat) < 16" by simp
  have nz: "average_norms q ! 0 \<noteq> Fin 0" by (simp add: v)
  from local_shifts_signed [OF q i0 nz]
  have "R_cs q ! 0 = Fin 0 \<and> R_hs q ! 0 = Fin (1 / 2)" by (simp add: v)
  then show "\<exists>q. colour_fidelity_index_ANSIIESTM3018 (upstream specification_hue_shifted)
           example_delta_E_to_R_f () True = Inr (Specification_ANSIIESTM3018 q) \<and>
        radial_component q 0 = Fin 0 \<and> tangential_component q 0 = Fin 1 \<and>
        R_cs q ! 0 = Fin 0 \<and> R_hs q ! 0 = Fin (1 / 2)"
    using q by (intro exI[of _ q]) (simp add: v)
qed

end
